theory Spec2Isabelle
  imports Main "HOL-Library.Word"
begin

section \<open>JavaScript strings\<close>

text \<open>
  A JavaScript string is a sequence of UTF-16 code units. The literals of the source are
  all ASCII; \<open>js\<close> turns a HOL literal into its code units.
\<close>

type_synonym jsstring = "16 word list"

definition js :: "string \<Rightarrow> jsstring" where
  "js s = map (\<lambda>c. of_nat (of_char c)) s"

text \<open>\<^verbatim>\<open>String.prototype.startsWith\<close> (position 0).\<close>

definition startsWith :: "jsstring \<Rightarrow> jsstring \<Rightarrow> bool" where
  "startsWith s p = (take (length p) s = p)"

text \<open>
  \<^verbatim>\<open>String.prototype.trim\<close> strips the ECMAScript WhiteSpace and LineTerminator code
  points from both ends: TAB, LF, VT, FF, CR, SP, NBSP, the Unicode space separators,
  LS, PS and the byte order mark.
\<close>

definition isWhiteSpace :: "16 word \<Rightarrow> bool" where
  "isWhiteSpace c = (c \<in> set [0x0009, 0x000A, 0x000B, 0x000C, 0x000D, 0x0020, 0x00A0,
     0x1680, 0x2000, 0x2001, 0x2002, 0x2003, 0x2004, 0x2005, 0x2006, 0x2007, 0x2008,
     0x2009, 0x200A, 0x2028, 0x2029, 0x202F, 0x205F, 0x3000, 0xFEFF])"

definition trim :: "jsstring \<Rightarrow> jsstring" where
  "trim s = rev (dropWhile isWhiteSpace (rev (dropWhile isWhiteSpace s)))"

section \<open>Data\<close>

type_synonym user_id = jsstring
type_synonym channel_id = jsstring

text \<open>The fields of the discord.js message that the handler reads.\<close>

record message =
  author_id :: user_id
  author_bot :: bool
  content :: jsstring
  channel_id :: channel_id

text \<open>What a rejected promise carries; the tag names the collaborator that failed.\<close>

datatype error = SourceUnavailable | Timeout | DeliveryRejected | StoreUnavailable | GatewayError

text \<open>
  The commands handed to \<^verbatim>\<open>snsClient.send\<close>: \<open>PublishCommand PhoneNumber Message\<close> and
  \<open>SubscribeCommand Protocol TopicArn Endpoint\<close>; and to \<^verbatim>\<open>ddbDocClient.send\<close>, each on
  the one table \<^verbatim>\<open>DYNAMODB_TABLE\<close>: \<open>GetCommand UserId\<close>, \<open>PutCommand UserId PhoneNumber\<close>,
  \<open>DeleteCommand UserId\<close>.
\<close>

datatype sns_command =
  PublishCommand jsstring jsstring
| SubscribeCommand jsstring jsstring jsstring

datatype ddb_command =
  GetCommand user_id
| PutCommand user_id jsstring
| DeleteCommand user_id

datatype logger = LoggerError | LoggerInfo | ConsoleError

text \<open>
  Every call that leaves the process, in the order it is made. \<open>AwaitMessages u max time\<close>
  is \<^verbatim>\<open>dmChannel.awaitMessages\<close> in the direct channel of \<open>u\<close>, filtered on the author \<open>u\<close>;
  \<open>DmChannelSend\<close> is \<^verbatim>\<open>dmChannel.send\<close> and \<open>AuthorSend\<close> is \<^verbatim>\<open>message.author.send\<close>.
\<close>

datatype event =
  AxiosGet jsstring
| SnsSend sns_command
| DdbSend ddb_command
| ChannelSend channel_id jsstring
| CreateDM user_id
| DmChannelSend user_id jsstring
| AwaitMessages user_id nat nat
| AuthorSend user_id jsstring
| Log logger jsstring

text \<open>
  The collaborators, as the answers they give during one invocation of the handler:
  the quote service answers with the fields \<^verbatim>\<open>q\<close> and \<^verbatim>\<open>a\<close> of its first entry, SNS with a
  \<^verbatim>\<open>MessageId\<close> or a \<^verbatim>\<open>SubscriptionArn\<close>, the awaited reply is the content of the first
  collected message; each of them may reject instead. \<open>TOPIC_ARN\<close> is the process
  environment variable of that name.
\<close>

record env =
  axios_get :: "jsstring \<Rightarrow> error + (jsstring \<times> jsstring)"
  sns_send :: "sns_command \<Rightarrow> error + jsstring"
  ddb_fault :: "ddb_command \<Rightarrow> error option"
  discord_fault :: "event \<Rightarrow> error option"
  await_reply :: "user_id \<Rightarrow> error + jsstring"
  TOPIC_ARN :: jsstring

text \<open>The table (the attribute \<^verbatim>\<open>PhoneNumber\<close> of the item of each \<^verbatim>\<open>UserId\<close>) and the calls made so far.\<close>

record world =
  store :: "user_id \<rightharpoonup> jsstring"
  trace :: "event list"

section \<open>Promises: state and rejection\<close>

type_synonym 'a io = "world \<Rightarrow> (error + 'a) \<times> world"

definition ret :: "'a \<Rightarrow> 'a io" where
  "ret x = (\<lambda>w. (Inr x, w))"

definition throw :: "error \<Rightarrow> 'a io" where
  "throw e = (\<lambda>w. (Inl e, w))"

text \<open>\<^verbatim>\<open>const x = await m; f(x)\<close>: a rejection of \<open>m\<close> skips \<open>f\<close>.\<close>

definition await :: "'a io \<Rightarrow> ('a \<Rightarrow> 'b io) \<Rightarrow> 'b io" where
  "await m f = (\<lambda>w. case m w of (Inl e, w') \<Rightarrow> (Inl e, w') | (Inr x, w') \<Rightarrow> f x w')"

text \<open>\<^verbatim>\<open>try { m } catch (error) { h(error) }\<close>.\<close>

definition try_catch :: "'a io \<Rightarrow> (error \<Rightarrow> 'a io) \<Rightarrow> 'a io" where
  "try_catch m h = (\<lambda>w. case m w of (Inl e, w') \<Rightarrow> h e w' | (Inr x, w') \<Rightarrow> (Inr x, w'))"

text \<open>An outgoing call: it is recorded, and resolves or rejects as the collaborator answers.\<close>

definition perform :: "event \<Rightarrow> error + 'a \<Rightarrow> 'a io" where
  "perform ev r = (\<lambda>w. (r, w\<lparr>trace := trace w @ [ev]\<rparr>))"

definition log :: "logger \<Rightarrow> jsstring \<Rightarrow> unit io" where
  "log l text = perform (Log l text) (Inr ())"

definition discord :: "env \<Rightarrow> event \<Rightarrow> unit io" where
  "discord E ev = perform ev (case discord_fault E ev of None \<Rightarrow> Inr () | Some e \<Rightarrow> Inl e)"

definition snsClient_send :: "env \<Rightarrow> sns_command \<Rightarrow> jsstring io" where
  "snsClient_send E command = perform (SnsSend command) (sns_send E command)"

text \<open>
  \<^verbatim>\<open>ddbDocClient.send\<close>: unless the store rejects the command, a get answers with the item,
  a put writes it and a delete removes it.
\<close>

definition ddbDocClient_send :: "env \<Rightarrow> ddb_command \<Rightarrow> jsstring option io" where
  "ddbDocClient_send E command = (\<lambda>w.
     let w' = w\<lparr>trace := trace w @ [DdbSend command]\<rparr> in
     case ddb_fault E command of
       Some e \<Rightarrow> (Inl e, w')
     | None \<Rightarrow>
        (case command of
           GetCommand userId \<Rightarrow> (Inr (store w userId), w')
         | PutCommand userId phoneNumber \<Rightarrow>
             (Inr None, w'\<lparr>store := (store w)(userId \<mapsto> phoneNumber)\<rparr>)
         | DeleteCommand userId \<Rightarrow>
             (Inr None, w'\<lparr>store := (store w)(userId := None)\<rparr>)))"

section \<open>The texts of the source\<close>

text \<open>The string literals of the source, each under a name.\<close>

definition zenquotes_url :: jsstring where
  "zenquotes_url = js ''https://zenquotes.io/api/random''"

definition text_fetch_error :: jsstring where
  "text_fetch_error = js ''Error fetching quote:''"

definition text_publish_error :: jsstring where
  "text_publish_error = js ''Could not publish to this phone number:''"

definition text_subscribe_error :: jsstring where
  "text_subscribe_error = js ''Error subscribing phone number:''"

definition text_get_error :: jsstring where
  "text_get_error = js ''Could not get phone number from DynamoDB:''"

definition text_save_error :: jsstring where
  "text_save_error = js ''Could not save phone number to DynamoDB:''"

definition text_delete_error :: jsstring where
  "text_delete_error = js ''Could not delete phone number from DynamoDB:''"

definition text_inspire_sent :: jsstring where
  "text_inspire_sent = js ''Your inspirational quote has been sent to your phone!''"

definition text_inspire_error :: jsstring where
  "text_inspire_error = js ''Error handling !inspire command:''"

definition text_inspire_failed :: jsstring where
  "text_inspire_failed = js ''Something went wrong while fetching your inspirational quote. Please try again later.''"

definition text_subscribe_prompt :: jsstring where
  "text_subscribe_prompt = js ''Please reply with your phone number to subscribe to SMS notifications:''"

definition text_subscribe_thanks :: jsstring where
  "text_subscribe_thanks = js ''Thank you! A confirmation message has been sent to your phone. Please reply to confirm your subscription.''"

definition text_subscribe_command_error :: jsstring where
  "text_subscribe_command_error = js ''Error handling !subscribe command:''"

definition text_subscribe_failed :: jsstring where
  "text_subscribe_failed = js ''There was an error subscribing your phone number. Please try again.''"

definition text_unsubscribed :: jsstring where
  "text_unsubscribed = js ''Your phone number has been unsubscribed from SMS notifications.''"

definition text_not_subscribed :: jsstring where
  "text_not_subscribed = js ''You are not subscribed to SMS notifications.''"

definition text_unsubscribe_error :: jsstring where
  "text_unsubscribe_error = js ''Error handling !unsubscribe command:''"

definition text_unsubscribe_failed :: jsstring where
  "text_unsubscribe_failed = js ''There was an error unsubscribing your phone number. Please try again.''"

definition protocol_sms :: jsstring where
  "protocol_sms = js ''sms''"

text \<open>The constant part of the template literal \<^verbatim>\<open>`pending:${phoneNumber}`\<close>.\<close>

definition pending_marker :: jsstring where
  "pending_marker = js ''pending:''"

text \<open>\<^verbatim>\<open>response.data[0]["q"] + " -" + response.data[0]["a"]\<close>.\<close>

definition quote_of :: "jsstring \<Rightarrow> jsstring \<Rightarrow> jsstring" where
  "quote_of q a = q @ js '' -'' @ a"

text \<open>The two template literals that are logged.\<close>

definition text_published :: "jsstring \<Rightarrow> jsstring \<Rightarrow> jsstring" where
  "text_published phoneNumber messageId =
     js ''Message published to phone number '' @ phoneNumber @ js '' with message Id - '' @ messageId"

definition text_unsubscribed_log :: "jsstring \<Rightarrow> user_id \<Rightarrow> jsstring" where
  "text_unsubscribed_log phoneNumber userId =
     js ''Phone number '' @ phoneNumber @ js '' for user '' @ userId @ js '' has been unsubscribed.''"

section \<open>The helper functions\<close>

definition getQuote :: "env \<Rightarrow> jsstring io" where
  "getQuote E =
     try_catch
       (await (perform (AxiosGet zenquotes_url) (axios_get E zenquotes_url))
          (\<lambda>(q, a). ret (quote_of q a)))
       (\<lambda>error. await (log LoggerError text_fetch_error) (\<lambda>_. throw error))"

definition publishMessage :: "env \<Rightarrow> jsstring \<Rightarrow> jsstring \<Rightarrow> jsstring io" where
  "publishMessage E phoneNumber message =
     try_catch
       (snsClient_send E (PublishCommand phoneNumber message))
       (\<lambda>error. await (log LoggerError text_publish_error) (\<lambda>_. throw error))"

definition subscribePhoneNumberToTopic :: "env \<Rightarrow> jsstring \<Rightarrow> jsstring \<Rightarrow> jsstring io" where
  "subscribePhoneNumberToTopic E phoneNumber topicArn =
     try_catch
       (snsClient_send E (SubscribeCommand protocol_sms topicArn phoneNumber))
       (\<lambda>error. await (log ConsoleError text_subscribe_error) (\<lambda>_. throw error))"

text \<open>\<^verbatim>\<open>response.Item ? response.Item.PhoneNumber : null\<close>.\<close>

definition getPhoneNumber :: "env \<Rightarrow> user_id \<Rightarrow> jsstring option io" where
  "getPhoneNumber E userId =
     try_catch
       (ddbDocClient_send E (GetCommand userId))
       (\<lambda>error. await (log LoggerError text_get_error) (\<lambda>_. throw error))"

definition savePhoneNumber :: "env \<Rightarrow> user_id \<Rightarrow> jsstring \<Rightarrow> unit io" where
  "savePhoneNumber E userId phoneNumber =
     try_catch
       (await (ddbDocClient_send E (PutCommand userId phoneNumber)) (\<lambda>_. ret ()))
       (\<lambda>error. await (log LoggerError text_save_error) (\<lambda>_. throw error))"

definition deletePhoneNumber :: "env \<Rightarrow> user_id \<Rightarrow> unit io" where
  "deletePhoneNumber E userId =
     try_catch
       (await (ddbDocClient_send E (DeleteCommand userId)) (\<lambda>_. ret ()))
       (\<lambda>error. await (log LoggerError text_delete_error) (\<lambda>_. throw error))"

section \<open>The three flows of the \<^verbatim>\<open>messageCreate\<close> handler\<close>

text \<open>
  \<^verbatim>\<open>if (phoneNumber)\<close>: \<^verbatim>\<open>null\<close> and the empty string are falsy, every other string is truthy.
\<close>

definition truthy :: "jsstring option \<Rightarrow> bool" where
  "truthy v = (case v of None \<Rightarrow> False | Some s \<Rightarrow> s \<noteq> [])"

definition handleInspire :: "env \<Rightarrow> message \<Rightarrow> unit io" where
  "handleInspire E message =
     try_catch
       (await (getQuote E) (\<lambda>quote.
        await (discord E (ChannelSend (channel_id message) quote)) (\<lambda>_.
        await (getPhoneNumber E (author_id message)) (\<lambda>phoneNumber.
        if truthy phoneNumber then
          (case phoneNumber of
             None \<Rightarrow> ret ()
           | Some phone \<Rightarrow>
              await (publishMessage E phone quote) (\<lambda>messageId.
              await (log LoggerInfo (text_published phone messageId)) (\<lambda>_.
              discord E (AuthorSend (author_id message) text_inspire_sent))))
        else ret ()))))
       (\<lambda>error.
        await (log LoggerError text_inspire_error) (\<lambda>_.
        discord E (AuthorSend (author_id message) text_inspire_failed)))"

definition handleSubscribe :: "env \<Rightarrow> message \<Rightarrow> unit io" where
  "handleSubscribe E message =
     try_catch
       (await (discord E (CreateDM (author_id message))) (\<lambda>_.
        await (discord E (DmChannelSend (author_id message) text_subscribe_prompt)) (\<lambda>_.
        await (perform (AwaitMessages (author_id message) 1 60000)
                 (await_reply E (author_id message))) (\<lambda>collected.
        let phoneNumber = trim collected; topicArn = TOPIC_ARN E in
        await (subscribePhoneNumberToTopic E phoneNumber topicArn) (\<lambda>_.
        await (discord E (DmChannelSend (author_id message) text_subscribe_thanks)) (\<lambda>_.
        savePhoneNumber E (author_id message) (pending_marker @ phoneNumber)))))))
       (\<lambda>error.
        await (log LoggerError text_subscribe_command_error) (\<lambda>_.
        discord E (AuthorSend (author_id message) text_subscribe_failed)))"

definition handleUnsubscribe :: "env \<Rightarrow> message \<Rightarrow> unit io" where
  "handleUnsubscribe E message =
     try_catch
       (await (getPhoneNumber E (author_id message)) (\<lambda>phoneNumber.
        if truthy phoneNumber then
          (case phoneNumber of
             None \<Rightarrow> ret ()
           | Some phone \<Rightarrow>
              await (deletePhoneNumber E (author_id message)) (\<lambda>_.
              await (discord E (AuthorSend (author_id message) text_unsubscribed)) (\<lambda>_.
              log LoggerInfo (text_unsubscribed_log phone (author_id message)))))
        else
          discord E (AuthorSend (author_id message) text_not_subscribed)))
       (\<lambda>error.
        await (log LoggerError text_unsubscribe_error) (\<lambda>_.
        discord E (AuthorSend (author_id message) text_unsubscribe_failed)))"

text \<open>
  The handler: a message of a bot is dropped; the three prefix tests run one after the
  other, and a rejection that leaves one block ends the handler.
\<close>

definition messageCreate :: "env \<Rightarrow> message \<Rightarrow> unit io" where
  "messageCreate E message =
     (if author_bot message then ret ()
      else
        let msg = content message in
        await (if startsWith msg (js ''!inspire'') then handleInspire E message else ret ()) (\<lambda>_.
        await (if startsWith msg (js ''!subscribe'') then handleSubscribe E message else ret ()) (\<lambda>_.
        if startsWith msg (js ''!unsubscribe'') then handleUnsubscribe E message else ret ())))"

text \<open>The handler run on a sequence of messages, each with the answers its collaborators give.\<close>

fun run :: "(env \<times> message) list \<Rightarrow> world \<Rightarrow> world" where
  "run [] w = w"
| "run ((E, message) # rest) w = run rest (snd (messageCreate E message w))"

section \<open>Observations\<close>

text \<open>The calls made between two worlds.\<close>

definition emitted :: "world \<Rightarrow> world \<Rightarrow> event list" where
  "emitted w w' = drop (length (trace w)) (trace w')"

fun is_sns :: "event \<Rightarrow> bool" where
  "is_sns (SnsSend _) = True"
| "is_sns _ = False"

fun is_publish :: "event \<Rightarrow> bool" where
  "is_publish (SnsSend (PublishCommand _ _)) = True"
| "is_publish _ = False"

fun is_put :: "event \<Rightarrow> bool" where
  "is_put (DdbSend (PutCommand _ _)) = True"
| "is_put _ = False"

fun is_delete :: "event \<Rightarrow> bool" where
  "is_delete (DdbSend (DeleteCommand _)) = True"
| "is_delete _ = False"

text \<open>
  The three phone states, read off what a lookup answers. The flows test a lookup with
  \<^verbatim>\<open>if (phoneNumber)\<close>, so a falsy answer is the unset state; a stored value that starts with
  the marker \<^verbatim>\<open>pending:\<close> is pending, with the marker taken off; any other stored value is
  confirmed.
\<close>

datatype phone_state = Unset | Pending jsstring | Confirmed jsstring

definition phoneState :: "jsstring option \<Rightarrow> phone_state" where
  "phoneState r =
     (case r of
        None \<Rightarrow> Unset
      | Some v \<Rightarrow>
          if v = [] then Unset
          else if startsWith v pending_marker then Pending (drop (length pending_marker) v)
          else Confirmed v)"

text \<open>
  What the flows may do to the table: every put they send carries a value that starts with
  the marker, and the record of a user is left as it was, removed, or replaced by a marked
  value.
\<close>

fun put_marked :: "event \<Rightarrow> bool" where
  "put_marked (DdbSend (PutCommand u v)) = startsWith v pending_marker"
| "put_marked _ = True"

definition marks_only :: "world \<Rightarrow> world \<Rightarrow> bool" where
  "marks_only w w' \<longleftrightarrow>
     (\<exists>evs. trace w' = trace w @ evs \<and> list_all put_marked evs)
     \<and> (\<forall>u. store w' u = store w u \<or> store w' u = None
            \<or> (\<exists>p. store w' u = Some (pending_marker @ p)))"

definition keeps :: "'a io \<Rightarrow> bool" where
  "keeps m \<longleftrightarrow> (\<forall>w. marks_only w (snd (m w)))"

section \<open>Sample inputs\<close>

text \<open>
  One user in one channel, collaborators that all answer, and the variants in which one of
  them rejects; an empty table, and tables that hold a marked and an unmarked number.
\<close>

definition alice :: user_id where
  "alice = js ''1001''"

definition general :: channel_id where
  "general = js ''general''"

definition inspire_message :: message where
  "inspire_message = \<lparr>author_id = alice, author_bot = False, content = js ''!inspire'', channel_id = general\<rparr>"

definition subscribe_message :: message where
  "subscribe_message = \<lparr>author_id = alice, author_bot = False, content = js ''!subscribe'', channel_id = general\<rparr>"

definition unsubscribe_message :: message where
  "unsubscribe_message = \<lparr>author_id = alice, author_bot = False, content = js ''!unsubscribe'', channel_id = general\<rparr>"

definition all_well :: env where
  "all_well = \<lparr>axios_get = (\<lambda>_. Inr (js ''Be kind.'', js ''Anon'')),
     sns_send = (\<lambda>_. Inr (js ''id-1'')),
     ddb_fault = (\<lambda>_. None),
     discord_fault = (\<lambda>_. None),
     await_reply = (\<lambda>_. Inr (js '' +15551234567 '')),
     TOPIC_ARN = js ''arn:aws:sns:us-east-1:1:quotes''\<rparr>"

definition sns_rejects :: env where
  "sns_rejects = all_well\<lparr>sns_send := (\<lambda>_. Inl DeliveryRejected)\<rparr>"

definition no_reply :: env where
  "no_reply = all_well\<lparr>await_reply := (\<lambda>_. Inl Timeout)\<rparr>"

definition quote_down :: env where
  "quote_down = all_well\<lparr>axios_get := (\<lambda>_. Inl SourceUnavailable)\<rparr>"

definition fresh :: world where
  "fresh = \<lparr>store = Map.empty, trace = []\<rparr>"

definition pending_world :: world where
  "pending_world = \<lparr>store = [alice \<mapsto> js ''pending:+15551234567''], trace = []\<rparr>"

definition confirmed_world :: world where
  "confirmed_world = \<lparr>store = [alice \<mapsto> js ''+15551234567''], trace = []\<rparr>"

section \<open>Unfolding the flows\<close>

lemmas io_defs = ret_def throw_def await_def try_catch_def perform_def log_def discord_def
  snsClient_send_def ddbDocClient_send_def
lemmas helper_defs = getQuote_def publishMessage_def subscribePhoneNumberToTopic_def
  getPhoneNumber_def savePhoneNumber_def deletePhoneNumber_def

lemma startsWith_append: "startsWith (p @ s) p"
  by (simp add: startsWith_def)

lemma pending_marker_nonempty: "pending_marker \<noteq> []"
  by (simp add: pending_marker_def js_def)

lemma phoneState_marked: "phoneState (Some (pending_marker @ p)) = Pending p"
  by (simp add: phoneState_def startsWith_append pending_marker_nonempty)

lemma phoneState_Unset_iff: "phoneState r = Unset \<longleftrightarrow> \<not> truthy r"
  by (simp add: phoneState_def truthy_def split: option.splits)

lemma phoneState_ConfirmedD: "phoneState r = Confirmed p \<Longrightarrow> r = Some p \<and> p \<noteq> []"
  by (simp add: phoneState_def split: option.splits if_splits)

lemma trim_sample: "trim (js '' +15551234567 '') = js ''+15551234567''"
  by (simp add: trim_def js_def isWhiteSpace_def)

lemma pending_sample: "js ''pending:+15551234567'' = pending_marker @ js ''+15551234567''"
  by (simp add: pending_marker_def js_def)

lemma confirmed_sample: "phoneState (Some (js ''+15551234567'')) = Confirmed (js ''+15551234567'')"
  by (simp add: phoneState_def startsWith_def pending_marker_def js_def)

section \<open>The command router\<close>

text \<open>
  The three prefixes differ in their second character, so a message takes at most one of the
  three branches, and the handler on a command of a user is the flow of that command.
\<close>

lemma startsWith_take:
  assumes "startsWith s p" and "n \<le> length p"
  shows "take n s = take n p"
proof -
  from assms(1) have "take n (take (length p) s) = take n p"
    by (simp add: startsWith_def)
  with assms(2) show ?thesis
    by (simp add: min_absorb1)
qed

lemma commands_differ:
  "\<not> (startsWith s (js ''!inspire'') \<and> startsWith s (js ''!subscribe''))"
  "\<not> (startsWith s (js ''!inspire'') \<and> startsWith s (js ''!unsubscribe''))"
  "\<not> (startsWith s (js ''!subscribe'') \<and> startsWith s (js ''!unsubscribe''))"
proof -
  have i: "take 2 (js ''!inspire'') = [33, 105]" "2 \<le> length (js ''!inspire'')"
    and s: "take 2 (js ''!subscribe'') = [33, 115]" "2 \<le> length (js ''!subscribe'')"
    and u: "take 2 (js ''!unsubscribe'') = [33, 117]" "2 \<le> length (js ''!unsubscribe'')"
    by (simp_all add: js_def)
  show "\<not> (startsWith s (js ''!inspire'') \<and> startsWith s (js ''!subscribe''))"
    using startsWith_take [of s "js ''!inspire''" 2] startsWith_take [of s "js ''!subscribe''" 2] i s
    by auto
  show "\<not> (startsWith s (js ''!inspire'') \<and> startsWith s (js ''!unsubscribe''))"
    using startsWith_take [of s "js ''!inspire''" 2] startsWith_take [of s "js ''!unsubscribe''" 2] i u
    by auto
  show "\<not> (startsWith s (js ''!subscribe'') \<and> startsWith s (js ''!unsubscribe''))"
    using startsWith_take [of s "js ''!subscribe''" 2] startsWith_take [of s "js ''!unsubscribe''" 2] s u
    by auto
qed

lemma await_ret: "await m ret = m"
  by (rule ext) (simp add: await_def ret_def split: prod.splits sum.splits)

lemma ret_await: "await (ret x) f = f x"
  by (rule ext) (simp add: await_def ret_def)

lemma messageCreate_inspire:
  assumes "\<not> author_bot m" and "startsWith (content m) (js ''!inspire'')"
  shows "messageCreate E m = handleInspire E m"
  using assms commands_differ(1,2) [of "content m"]
  by (simp add: messageCreate_def Let_def ret_await await_ret)

lemma messageCreate_subscribe:
  assumes "\<not> author_bot m" and "startsWith (content m) (js ''!subscribe'')"
  shows "messageCreate E m = handleSubscribe E m"
  using assms commands_differ(1,3) [of "content m"]
  by (simp add: messageCreate_def Let_def ret_await await_ret)

lemma messageCreate_unsubscribe:
  assumes "\<not> author_bot m" and "startsWith (content m) (js ''!unsubscribe'')"
  shows "messageCreate E m = handleUnsubscribe E m"
  using assms commands_differ(2,3) [of "content m"]
  by (simp add: messageCreate_def Let_def ret_await await_ret)

section \<open>The inspire flow\<close>

text \<open>
  C8. When fetching the quote fails, the flow logs the failure, sends the author the generic
  failure text as a direct message and stops: these are all the calls it makes, so nothing
  is posted to the channel, the table is not read and nothing is published.
\<close>

theorem inspire_quote_failure_stops:
  assumes "axios_get E zenquotes_url = Inl e"
  shows "emitted w (snd (handleInspire E m w)) =
           [AxiosGet zenquotes_url, Log LoggerError text_fetch_error,
            Log LoggerError text_inspire_error, AuthorSend (author_id m) text_inspire_failed]
         \<and> store (snd (handleInspire E m w)) = store w"
  using assms by (simp add: handleInspire_def helper_defs io_defs emitted_def)

theorem inspire_quote_failure_stops_witness:
  "axios_get quote_down zenquotes_url = Inl SourceUnavailable
   \<and> emitted fresh (snd (handleInspire quote_down inspire_message fresh)) =
           [AxiosGet zenquotes_url, Log LoggerError text_fetch_error,
            Log LoggerError text_inspire_error, AuthorSend alice text_inspire_failed]
   \<and> store (snd (handleInspire quote_down inspire_message fresh)) = Map.empty"
proof -
  have h: "axios_get quote_down zenquotes_url = Inl SourceUnavailable"
    by (simp add: quote_down_def all_well_def)
  from inspire_quote_failure_stops [OF h, of fresh inspire_message] h show ?thesis
    by (simp add: inspire_message_def fresh_def)
qed

text \<open>
  C7. A user whose stored value is confirmed (present, not empty, without the marker): when
  the quote is fetched, the channel post, the lookup, the publish call and the
  acknowledgment all succeed, the flow makes exactly these calls in this order: the quote is
  posted to the channel, the number is looked up, one message with the quote as its text is
  published to the stored number, and one acknowledgment is sent to the author.
\<close>

theorem inspire_confirmed_publishes_once:
  assumes "phoneState (store w (author_id m)) = Confirmed phone"
    and "axios_get E zenquotes_url = Inr (q, a)"
    and "discord_fault E (ChannelSend (channel_id m) (quote_of q a)) = None"
    and "ddb_fault E (GetCommand (author_id m)) = None"
    and "sns_send E (PublishCommand phone (quote_of q a)) = Inr messageId"
    and "discord_fault E (AuthorSend (author_id m) text_inspire_sent) = None"
  shows "emitted w (snd (handleInspire E m w)) =
           [AxiosGet zenquotes_url,
            ChannelSend (channel_id m) (quote_of q a),
            DdbSend (GetCommand (author_id m)),
            SnsSend (PublishCommand phone (quote_of q a)),
            Log LoggerInfo (text_published phone messageId),
            AuthorSend (author_id m) text_inspire_sent]
         \<and> fst (handleInspire E m w) = Inr ()"
proof -
  from assms(1) have "store w (author_id m) = Some phone" and "phone \<noteq> []"
    by (simp_all add: phoneState_ConfirmedD)
  with assms(2-) show ?thesis
    by (simp add: handleInspire_def helper_defs io_defs emitted_def Let_def truthy_def)
qed

theorem inspire_confirmed_publishes_once_witness:
  "phoneState (store confirmed_world (author_id inspire_message)) = Confirmed (js ''+15551234567'')
   \<and> emitted confirmed_world (snd (handleInspire all_well inspire_message confirmed_world)) =
           [AxiosGet zenquotes_url,
            ChannelSend general (quote_of (js ''Be kind.'') (js ''Anon'')),
            DdbSend (GetCommand alice),
            SnsSend (PublishCommand (js ''+15551234567'') (quote_of (js ''Be kind.'') (js ''Anon''))),
            Log LoggerInfo (text_published (js ''+15551234567'') (js ''id-1'')),
            AuthorSend alice text_inspire_sent]
   \<and> fst (handleInspire all_well inspire_message confirmed_world) = Inr ()"
proof -
  have h: "phoneState (store confirmed_world (author_id inspire_message)) = Confirmed (js ''+15551234567'')"
    by (simp add: confirmed_world_def inspire_message_def confirmed_sample)
  from inspire_confirmed_publishes_once [of confirmed_world inspire_message "js ''+15551234567''" all_well
      "js ''Be kind.''" "js ''Anon''" "js ''id-1''", OF h] h
  show ?thesis
    by (simp add: all_well_def inspire_message_def)
qed

text \<open>
  C1. For a user without a stored number the flow publishes nothing and sends no
  acknowledgment (\<open>inspire_unset_publishes_nothing\<close> below). For a pending record it does
  not hold: the lookup answers with the marked string, which is truthy, so the flow
  publishes to that string, with the marker still on it, and acknowledges. Here the table
  holds what the subscribe flow writes for the reply \<^verbatim>\<open>+15551234567\<close>.
\<close>

theorem inspire_publishes_to_pending_record:
  "phoneState (store pending_world alice) = Pending (js ''+15551234567'')
   \<and> emitted pending_world (snd (handleInspire all_well inspire_message pending_world)) =
           [AxiosGet zenquotes_url,
            ChannelSend general (quote_of (js ''Be kind.'') (js ''Anon'')),
            DdbSend (GetCommand alice),
            SnsSend (PublishCommand (js ''pending:+15551234567'') (quote_of (js ''Be kind.'') (js ''Anon''))),
            Log LoggerInfo (text_published (js ''pending:+15551234567'') (js ''id-1'')),
            AuthorSend alice text_inspire_sent]"
proof -
  have "phoneState (store pending_world alice) = Pending (js ''+15551234567'')"
    by (simp add: pending_world_def pending_sample phoneState_marked)
  moreover have "js ''pending:+15551234567'' \<noteq> []"
    by (simp add: js_def)
  ultimately show ?thesis
    by (simp add: handleInspire_def helper_defs io_defs emitted_def truthy_def
        pending_world_def all_well_def inspire_message_def)
qed

text \<open>The part of C1 on users without a stored number, for any answers of the collaborators.\<close>

lemma inspire_unset_publishes_nothing:
  assumes "phoneState (store w (author_id m)) = Unset"
  shows "filter is_publish (emitted w (snd (handleInspire E m w))) = []
     \<and> AuthorSend (author_id m) text_inspire_sent \<notin> set (emitted w (snd (handleInspire E m w)))"
proof -
  have distinct: "text_inspire_sent \<noteq> text_inspire_failed"
    by (simp add: text_inspire_sent_def text_inspire_failed_def js_def)
  from assms have falsy: "\<not> truthy (store w (author_id m))"
    by (simp add: phoneState_Unset_iff)
  show ?thesis
  proof (cases "axios_get E zenquotes_url")
    case (Inl e)
    with distinct show ?thesis
      by (simp add: handleInspire_def helper_defs io_defs emitted_def)
  next
    case (Inr qa)
    then obtain q a where quote: "axios_get E zenquotes_url = Inr (q, a)"
      by (cases qa) simp
    show ?thesis
    proof (cases "discord_fault E (ChannelSend (channel_id m) (quote_of q a))")
      case (Some e)
      with quote distinct show ?thesis
        by (simp add: handleInspire_def helper_defs io_defs emitted_def)
    next
      case None
      with quote distinct falsy show ?thesis
        by (simp add: handleInspire_def helper_defs io_defs emitted_def Let_def
            split: option.splits)
    qed
  qed
qed

text \<open>Any marked record is published to, once the quote is posted and the lookup answers.\<close>

lemma inspire_marked_record_is_published:
  assumes "store w (author_id m) = Some (pending_marker @ phone)"
    and "axios_get E zenquotes_url = Inr (q, a)"
    and "discord_fault E (ChannelSend (channel_id m) (quote_of q a)) = None"
    and "ddb_fault E (GetCommand (author_id m)) = None"
  shows "take 4 (emitted w (snd (handleInspire E m w))) =
           [AxiosGet zenquotes_url,
            ChannelSend (channel_id m) (quote_of q a),
            DdbSend (GetCommand (author_id m)),
            SnsSend (PublishCommand (pending_marker @ phone) (quote_of q a))]"
  using assms pending_marker_nonempty
  by (simp add: handleInspire_def helper_defs io_defs emitted_def truthy_def
      split: option.splits sum.splits)

section \<open>The unsubscribe flow\<close>

text \<open>
  C5. A user without a stored number: the flow sends no delete command and leaves the table
  as it is, so the state stays unset; when the lookup answers, the calls start with the
  lookup and the message that the user is not subscribed.
\<close>

theorem unsubscribe_unset_not_subscribed:
  assumes "phoneState (store w (author_id m)) = Unset"
  shows "filter is_delete (emitted w (snd (handleUnsubscribe E m w))) = []
     \<and> store (snd (handleUnsubscribe E m w)) = store w
     \<and> phoneState (store (snd (handleUnsubscribe E m w)) (author_id m)) = Unset
     \<and> (ddb_fault E (GetCommand (author_id m)) = None \<longrightarrow>
          take 2 (emitted w (snd (handleUnsubscribe E m w))) =
            [DdbSend (GetCommand (author_id m)), AuthorSend (author_id m) text_not_subscribed])"
proof -
  from assms have "\<not> truthy (store w (author_id m))"
    by (simp add: phoneState_Unset_iff)
  with assms show ?thesis
    by (simp add: handleUnsubscribe_def helper_defs io_defs emitted_def Let_def
        split: option.splits)
qed

theorem unsubscribe_unset_not_subscribed_witness:
  "phoneState (store fresh (author_id unsubscribe_message)) = Unset
   \<and> ddb_fault all_well (GetCommand (author_id unsubscribe_message)) = None
   \<and> filter is_delete (emitted fresh (snd (handleUnsubscribe all_well unsubscribe_message fresh))) = []
   \<and> store (snd (handleUnsubscribe all_well unsubscribe_message fresh)) = Map.empty
   \<and> take 2 (emitted fresh (snd (handleUnsubscribe all_well unsubscribe_message fresh))) =
        [DdbSend (GetCommand alice), AuthorSend alice text_not_subscribed]"
proof -
  have h: "phoneState (store fresh (author_id unsubscribe_message)) = Unset"
    by (simp add: fresh_def phoneState_def)
  have g: "ddb_fault all_well (GetCommand (author_id unsubscribe_message)) = None"
    by (simp add: all_well_def)
  from unsubscribe_unset_not_subscribed [OF h, of all_well] h g show ?thesis
    by (simp add: fresh_def unsubscribe_message_def)
qed

text \<open>
  C6. A user with a stored number, pending or confirmed: when the lookup and the delete
  succeed, the flow looks the record up, deletes it, and then sends the confirmation; the
  record is gone afterwards, so the state is unset.
\<close>

theorem unsubscribe_present_deletes_then_confirms:
  assumes "phoneState (store w (author_id m)) \<noteq> Unset"
    and "ddb_fault E (GetCommand (author_id m)) = None"
    and "ddb_fault E (DeleteCommand (author_id m)) = None"
  shows "take 3 (emitted w (snd (handleUnsubscribe E m w))) =
            [DdbSend (GetCommand (author_id m)), DdbSend (DeleteCommand (author_id m)),
             AuthorSend (author_id m) text_unsubscribed]
     \<and> store (snd (handleUnsubscribe E m w)) = (store w)(author_id m := None)
     \<and> phoneState (store (snd (handleUnsubscribe E m w)) (author_id m)) = Unset"
proof -
  from assms(1) obtain phone where "store w (author_id m) = Some phone" and "phone \<noteq> []"
    by (auto simp: phoneState_def split: option.splits if_splits)
  with assms(2,3) show ?thesis
    by (simp add: handleUnsubscribe_def helper_defs io_defs emitted_def Let_def phoneState_def
        truthy_def split: option.splits)
qed

theorem unsubscribe_present_deletes_then_confirms_witness:
  "phoneState (store pending_world (author_id unsubscribe_message)) \<noteq> Unset
   \<and> ddb_fault all_well (GetCommand (author_id unsubscribe_message)) = None
   \<and> ddb_fault all_well (DeleteCommand (author_id unsubscribe_message)) = None
   \<and> take 3 (emitted pending_world (snd (handleUnsubscribe all_well unsubscribe_message pending_world))) =
        [DdbSend (GetCommand alice), DdbSend (DeleteCommand alice), AuthorSend alice text_unsubscribed]
   \<and> store (snd (handleUnsubscribe all_well unsubscribe_message pending_world)) alice = None"
proof -
  have h: "phoneState (store pending_world (author_id unsubscribe_message)) \<noteq> Unset"
    by (simp add: pending_world_def unsubscribe_message_def pending_sample phoneState_marked)
  have g: "ddb_fault all_well (GetCommand (author_id unsubscribe_message)) = None"
    and d: "ddb_fault all_well (DeleteCommand (author_id unsubscribe_message)) = None"
    by (simp_all add: all_well_def)
  from unsubscribe_present_deletes_then_confirms [OF h g d] h g d show ?thesis
    by (simp add: unsubscribe_message_def)
qed

text \<open>
  C10. Whatever the table holds and whatever the collaborators answer, the unsubscribe flow
  sends no command to SNS, neither a publish nor a subscribe, and it changes the record of
  no user but the author.
\<close>

theorem unsubscribe_leaves_sns_alone:
  "filter is_sns (emitted w (snd (handleUnsubscribe E m w))) = []
   \<and> (\<forall>u. u \<noteq> author_id m \<longrightarrow> store (snd (handleUnsubscribe E m w)) u = store w u)"
  by (simp add: handleUnsubscribe_def helper_defs io_defs emitted_def Let_def
      split: option.splits)

theorem unsubscribe_leaves_sns_alone_witness:
  "filter is_sns (emitted pending_world (snd (handleUnsubscribe all_well unsubscribe_message pending_world))) = []
   \<and> store (snd (handleUnsubscribe all_well unsubscribe_message pending_world)) (js ''1002'') = None
   \<and> emitted pending_world (snd (handleUnsubscribe all_well unsubscribe_message pending_world)) =
       [DdbSend (GetCommand alice), DdbSend (DeleteCommand alice), AuthorSend alice text_unsubscribed,
        Log LoggerInfo (text_unsubscribed_log (js ''pending:+15551234567'') alice)]"
proof -
  have ne: "js ''1002'' \<noteq> author_id unsubscribe_message"
    by (simp add: unsubscribe_message_def alice_def js_def)
  have run: "emitted pending_world (snd (handleUnsubscribe all_well unsubscribe_message pending_world)) =
       [DdbSend (GetCommand alice), DdbSend (DeleteCommand alice), AuthorSend alice text_unsubscribed,
        Log LoggerInfo (text_unsubscribed_log (js ''pending:+15551234567'') alice)]"
    by (simp add: handleUnsubscribe_def helper_defs io_defs emitted_def truthy_def
        pending_world_def all_well_def unsubscribe_message_def js_def)
  from unsubscribe_leaves_sns_alone [of pending_world all_well unsubscribe_message] ne run show ?thesis
    by (simp add: pending_world_def alice_def js_def)
qed

section \<open>The subscribe flow\<close>

text \<open>
  C2. The only put the subscribe flow ever sends is the one for the author with the marker
  in front of the trimmed reply, and it is sent only when a reply was collected and SNS
  accepted the subscribe command for the trimmed reply, which is then among the calls made
  before the put. The table ends as it was or with that one record written. When the
  direct channel opens, both direct messages are delivered, the reply arrives, SNS accepts
  and the table accepts the put, the flow makes exactly the six calls below in this order
  and the record of the author is the trimmed reply in the pending state.
\<close>

theorem subscribe_persists_pending_after_adapter:
  "(\<forall>ev \<in> set (emitted w (snd (handleSubscribe E m w))). is_put ev \<longrightarrow>
      (\<exists>reply arn. await_reply E (author_id m) = Inr reply
         \<and> sns_send E (SubscribeCommand protocol_sms (TOPIC_ARN E) (trim reply)) = Inr arn
         \<and> ev = DdbSend (PutCommand (author_id m) (pending_marker @ trim reply))
         \<and> SnsSend (SubscribeCommand protocol_sms (TOPIC_ARN E) (trim reply))
              \<in> set (takeWhile (\<lambda>e. \<not> is_put e) (emitted w (snd (handleSubscribe E m w))))))
   \<and> (\<forall>reply. await_reply E (author_id m) = Inr reply \<longrightarrow>
         store (snd (handleSubscribe E m w)) = store w
         \<or> store (snd (handleSubscribe E m w)) = (store w)(author_id m \<mapsto> pending_marker @ trim reply))
   \<and> (\<forall>reply arn.
         discord_fault E (CreateDM (author_id m)) = None
         \<and> discord_fault E (DmChannelSend (author_id m) text_subscribe_prompt) = None
         \<and> await_reply E (author_id m) = Inr reply
         \<and> sns_send E (SubscribeCommand protocol_sms (TOPIC_ARN E) (trim reply)) = Inr arn
         \<and> discord_fault E (DmChannelSend (author_id m) text_subscribe_thanks) = None
         \<and> ddb_fault E (PutCommand (author_id m) (pending_marker @ trim reply)) = None \<longrightarrow>
         emitted w (snd (handleSubscribe E m w)) =
           [CreateDM (author_id m),
            DmChannelSend (author_id m) text_subscribe_prompt,
            AwaitMessages (author_id m) 1 60000,
            SnsSend (SubscribeCommand protocol_sms (TOPIC_ARN E) (trim reply)),
            DmChannelSend (author_id m) text_subscribe_thanks,
            DdbSend (PutCommand (author_id m) (pending_marker @ trim reply))]
         \<and> store (snd (handleSubscribe E m w)) = (store w)(author_id m \<mapsto> pending_marker @ trim reply)
         \<and> phoneState (store (snd (handleSubscribe E m w)) (author_id m)) = Pending (trim reply))"
proof (intro conjI allI impI)
  show "\<forall>ev \<in> set (emitted w (snd (handleSubscribe E m w))). is_put ev \<longrightarrow>
      (\<exists>reply arn. await_reply E (author_id m) = Inr reply
         \<and> sns_send E (SubscribeCommand protocol_sms (TOPIC_ARN E) (trim reply)) = Inr arn
         \<and> ev = DdbSend (PutCommand (author_id m) (pending_marker @ trim reply))
         \<and> SnsSend (SubscribeCommand protocol_sms (TOPIC_ARN E) (trim reply))
              \<in> set (takeWhile (\<lambda>e. \<not> is_put e) (emitted w (snd (handleSubscribe E m w)))))"
    by (simp add: handleSubscribe_def helper_defs io_defs emitted_def Let_def
        split: option.splits sum.splits)
next
  fix reply
  assume "await_reply E (author_id m) = Inr reply"
  then show "store (snd (handleSubscribe E m w)) = store w
         \<or> store (snd (handleSubscribe E m w)) = (store w)(author_id m \<mapsto> pending_marker @ trim reply)"
    by (simp add: handleSubscribe_def helper_defs io_defs Let_def
        split: option.splits sum.splits)
next
  fix reply arn
  assume ok: "discord_fault E (CreateDM (author_id m)) = None
         \<and> discord_fault E (DmChannelSend (author_id m) text_subscribe_prompt) = None
         \<and> await_reply E (author_id m) = Inr reply
         \<and> sns_send E (SubscribeCommand protocol_sms (TOPIC_ARN E) (trim reply)) = Inr arn
         \<and> discord_fault E (DmChannelSend (author_id m) text_subscribe_thanks) = None
         \<and> ddb_fault E (PutCommand (author_id m) (pending_marker @ trim reply)) = None"
  then show "emitted w (snd (handleSubscribe E m w)) =
           [CreateDM (author_id m),
            DmChannelSend (author_id m) text_subscribe_prompt,
            AwaitMessages (author_id m) 1 60000,
            SnsSend (SubscribeCommand protocol_sms (TOPIC_ARN E) (trim reply)),
            DmChannelSend (author_id m) text_subscribe_thanks,
            DdbSend (PutCommand (author_id m) (pending_marker @ trim reply))]"
    by (simp add: handleSubscribe_def helper_defs io_defs emitted_def Let_def)
  from ok show st: "store (snd (handleSubscribe E m w)) = (store w)(author_id m \<mapsto> pending_marker @ trim reply)"
    by (simp add: handleSubscribe_def helper_defs io_defs emitted_def Let_def)
  show "phoneState (store (snd (handleSubscribe E m w)) (author_id m)) = Pending (trim reply)"
    by (simp add: st phoneState_marked)
qed

theorem subscribe_persists_pending_after_adapter_witness:
  "emitted fresh (snd (handleSubscribe all_well subscribe_message fresh)) =
     [CreateDM alice,
      DmChannelSend alice text_subscribe_prompt,
      AwaitMessages alice 1 60000,
      SnsSend (SubscribeCommand protocol_sms (TOPIC_ARN all_well) (js ''+15551234567'')),
      DmChannelSend alice text_subscribe_thanks,
      DdbSend (PutCommand alice (pending_marker @ js ''+15551234567''))]
   \<and> store (snd (handleSubscribe all_well subscribe_message fresh)) alice
        = Some (pending_marker @ js ''+15551234567'')
   \<and> phoneState (store (snd (handleSubscribe all_well subscribe_message fresh)) alice)
        = Pending (js ''+15551234567'')
   \<and> SnsSend (SubscribeCommand protocol_sms (TOPIC_ARN all_well) (js ''+15551234567''))
        \<in> set (takeWhile (\<lambda>e. \<not> is_put e)
             (emitted fresh (snd (handleSubscribe all_well subscribe_message fresh))))"
proof -
  have author: "author_id subscribe_message = alice"
    by (simp add: subscribe_message_def)
  have hyps: "discord_fault all_well (CreateDM (author_id subscribe_message)) = None
     \<and> discord_fault all_well (DmChannelSend (author_id subscribe_message) text_subscribe_prompt) = None
     \<and> await_reply all_well (author_id subscribe_message) = Inr (js '' +15551234567 '')
     \<and> sns_send all_well (SubscribeCommand protocol_sms (TOPIC_ARN all_well)
           (trim (js '' +15551234567 ''))) = Inr (js ''id-1'')
     \<and> discord_fault all_well (DmChannelSend (author_id subscribe_message) text_subscribe_thanks) = None
     \<and> ddb_fault all_well (PutCommand (author_id subscribe_message)
           (pending_marker @ trim (js '' +15551234567 ''))) = None"
    by (simp add: all_well_def)
  note whole = subscribe_persists_pending_after_adapter
    [of fresh all_well subscribe_message, THEN conjunct2, THEN conjunct2, rule_format, OF hyps]
  from whole have run:
    "emitted fresh (snd (handleSubscribe all_well subscribe_message fresh)) =
       [CreateDM alice,
        DmChannelSend alice text_subscribe_prompt,
        AwaitMessages alice 1 60000,
        SnsSend (SubscribeCommand protocol_sms (TOPIC_ARN all_well) (js ''+15551234567'')),
        DmChannelSend alice text_subscribe_thanks,
        DdbSend (PutCommand alice (pending_marker @ js ''+15551234567''))]"
    unfolding author trim_sample by (rule conjunct1)
  from whole have st: "store (snd (handleSubscribe all_well subscribe_message fresh)) alice
        = Some (pending_marker @ js ''+15551234567'')"
    unfolding author trim_sample by simp
  from whole have ps: "phoneState (store (snd (handleSubscribe all_well subscribe_message fresh)) alice)
        = Pending (js ''+15551234567'')"
    unfolding author trim_sample by (elim conjE)
  have "takeWhile (\<lambda>e. \<not> is_put e)
             (emitted fresh (snd (handleSubscribe all_well subscribe_message fresh)))
        = [CreateDM alice,
        DmChannelSend alice text_subscribe_prompt,
        AwaitMessages alice 1 60000,
        SnsSend (SubscribeCommand protocol_sms (TOPIC_ARN all_well) (js ''+15551234567'')),
        DmChannelSend alice text_subscribe_thanks]"
    unfolding run by simp
  then have before: "SnsSend (SubscribeCommand protocol_sms (TOPIC_ARN all_well) (js ''+15551234567''))
        \<in> set (takeWhile (\<lambda>e. \<not> is_put e)
             (emitted fresh (snd (handleSubscribe all_well subscribe_message fresh))))"
    by simp
  from run st ps before show ?thesis
    by (intro conjI)
qed

text \<open>
  C3. When a reply was collected and SNS rejects the subscribe command, no put is sent and
  the table is unchanged; when the direct channel opened and the prompt was delivered (so
  that the subscribe command is reached), the rejection is logged by the helper, caught and
  logged by the handler, and the generic subscription error is sent to the author.
\<close>

theorem subscribe_adapter_failure_persists_nothing:
  assumes "await_reply E (author_id m) = Inr reply"
    and "sns_send E (SubscribeCommand protocol_sms (TOPIC_ARN E) (trim reply)) = Inl e"
  shows "filter is_put (emitted w (snd (handleSubscribe E m w))) = []
     \<and> store (snd (handleSubscribe E m w)) = store w
     \<and> (discord_fault E (CreateDM (author_id m)) = None
          \<and> discord_fault E (DmChannelSend (author_id m) text_subscribe_prompt) = None \<longrightarrow>
        emitted w (snd (handleSubscribe E m w)) =
          [CreateDM (author_id m),
           DmChannelSend (author_id m) text_subscribe_prompt,
           AwaitMessages (author_id m) 1 60000,
           SnsSend (SubscribeCommand protocol_sms (TOPIC_ARN E) (trim reply)),
           Log ConsoleError text_subscribe_error,
           Log LoggerError text_subscribe_command_error,
           AuthorSend (author_id m) text_subscribe_failed])"
  using assms
  by (simp add: handleSubscribe_def helper_defs io_defs emitted_def Let_def
      split: option.splits)

theorem subscribe_adapter_failure_persists_nothing_witness:
  "await_reply sns_rejects (author_id subscribe_message) = Inr (js '' +15551234567 '')
   \<and> sns_send sns_rejects (SubscribeCommand protocol_sms (TOPIC_ARN sns_rejects)
         (trim (js '' +15551234567 ''))) = Inl DeliveryRejected
   \<and> filter is_put (emitted confirmed_world (snd (handleSubscribe sns_rejects subscribe_message confirmed_world))) = []
   \<and> store (snd (handleSubscribe sns_rejects subscribe_message confirmed_world)) = store confirmed_world
   \<and> emitted confirmed_world (snd (handleSubscribe sns_rejects subscribe_message confirmed_world)) =
          [CreateDM alice,
           DmChannelSend alice text_subscribe_prompt,
           AwaitMessages alice 1 60000,
           SnsSend (SubscribeCommand protocol_sms (TOPIC_ARN sns_rejects) (js ''+15551234567'')),
           Log ConsoleError text_subscribe_error,
           Log LoggerError text_subscribe_command_error,
           AuthorSend alice text_subscribe_failed]"
proof -
  have r: "await_reply sns_rejects (author_id subscribe_message) = Inr (js '' +15551234567 '')"
    and e: "sns_send sns_rejects (SubscribeCommand protocol_sms (TOPIC_ARN sns_rejects)
         (trim (js '' +15551234567 ''))) = Inl DeliveryRejected"
    and d: "discord_fault sns_rejects (CreateDM (author_id subscribe_message)) = None
          \<and> discord_fault sns_rejects (DmChannelSend (author_id subscribe_message) text_subscribe_prompt) = None"
    by (simp_all add: sns_rejects_def all_well_def)
  from subscribe_adapter_failure_persists_nothing [OF r e, of confirmed_world] r e d show ?thesis
    by (simp add: trim_sample subscribe_message_def)
qed

text \<open>
  C4. When the wait for the reply, one message within 60000 ms, ends without a reply, no put
  is sent and the table is unchanged; when the direct channel opened and the prompt was
  delivered (so that the wait is reached), the timeout is caught and logged by the handler
  and the generic subscription error is sent to the author. SNS is not called.
\<close>

theorem subscribe_timeout_persists_nothing:
  assumes "await_reply E (author_id m) = Inl Timeout"
  shows "filter is_put (emitted w (snd (handleSubscribe E m w))) = []
     \<and> store (snd (handleSubscribe E m w)) = store w
     \<and> (discord_fault E (CreateDM (author_id m)) = None
          \<and> discord_fault E (DmChannelSend (author_id m) text_subscribe_prompt) = None \<longrightarrow>
        emitted w (snd (handleSubscribe E m w)) =
          [CreateDM (author_id m),
           DmChannelSend (author_id m) text_subscribe_prompt,
           AwaitMessages (author_id m) 1 60000,
           Log LoggerError text_subscribe_command_error,
           AuthorSend (author_id m) text_subscribe_failed])"
  using assms
  by (simp add: handleSubscribe_def helper_defs io_defs emitted_def Let_def
      split: option.splits)

theorem subscribe_timeout_persists_nothing_witness:
  "await_reply no_reply (author_id subscribe_message) = Inl Timeout
   \<and> filter is_put (emitted fresh (snd (handleSubscribe no_reply subscribe_message fresh))) = []
   \<and> store (snd (handleSubscribe no_reply subscribe_message fresh)) = store fresh
   \<and> emitted fresh (snd (handleSubscribe no_reply subscribe_message fresh)) =
          [CreateDM alice,
           DmChannelSend alice text_subscribe_prompt,
           AwaitMessages alice 1 60000,
           Log LoggerError text_subscribe_command_error,
           AuthorSend alice text_subscribe_failed]"
proof -
  have r: "await_reply no_reply (author_id subscribe_message) = Inl Timeout"
    and d: "discord_fault no_reply (CreateDM (author_id subscribe_message)) = None
          \<and> discord_fault no_reply (DmChannelSend (author_id subscribe_message) text_subscribe_prompt) = None"
    by (simp_all add: no_reply_def all_well_def)
  from subscribe_timeout_persists_nothing [OF r, of fresh] r d show ?thesis
    by (simp add: subscribe_message_def)
qed

section \<open>The records the handler writes\<close>

lemma marks_only_refl: "marks_only w w"
  by (simp add: marks_only_def)

lemma marks_only_trans:
  assumes "marks_only a b" and "marks_only b c"
  shows "marks_only a c"
proof -
  from assms obtain xs ys where
    "trace b = trace a @ xs" "list_all put_marked xs"
    "trace c = trace b @ ys" "list_all put_marked ys"
    by (auto simp: marks_only_def)
  then have "trace c = trace a @ (xs @ ys) \<and> list_all put_marked (xs @ ys)"
    by simp
  then have tr: "\<exists>evs. trace c = trace a @ evs \<and> list_all put_marked evs"
    by blast
  have "store c u = store a u \<or> store c u = None
      \<or> (\<exists>p. store c u = Some (pending_marker @ p))" for u
  proof -
    from assms(2) have "store c u = store b u \<or> store c u = None
      \<or> (\<exists>p. store c u = Some (pending_marker @ p))"
      by (simp add: marks_only_def)
    moreover from assms(1) have "store b u = store a u \<or> store b u = None
      \<or> (\<exists>p. store b u = Some (pending_marker @ p))"
      by (simp add: marks_only_def)
    ultimately show ?thesis
      by metis
  qed
  with tr show ?thesis
    by (simp add: marks_only_def)
qed

lemma marks_only_event:
  "put_marked ev \<Longrightarrow> marks_only w (w\<lparr>trace := trace w @ [ev]\<rparr>)"
  by (simp add: marks_only_def)

lemma keeps_ret: "keeps (ret x)"
  by (simp add: keeps_def ret_def marks_only_refl)

lemma keeps_throw: "keeps (throw e)"
  by (simp add: keeps_def throw_def marks_only_refl)

lemma keeps_await:
  assumes "keeps m" and "\<And>x. keeps (f x)"
  shows "keeps (await m f)"
  unfolding keeps_def
proof
  fix w
  obtain r w1 where m: "m w = (r, w1)"
    by (cases "m w")
  with assms(1) have first: "marks_only w w1"
    by (metis keeps_def snd_conv)
  show "marks_only w (snd (await m f w))"
  proof (cases r)
    case (Inl e)
    with m first show ?thesis
      by (simp add: await_def)
  next
    case (Inr x)
    from assms(2) have "marks_only w1 (snd (f x w1))"
      by (simp add: keeps_def)
    with first have "marks_only w (snd (f x w1))"
      by (rule marks_only_trans)
    with m Inr show ?thesis
      by (simp add: await_def)
  qed
qed

lemma keeps_try_catch:
  assumes "keeps m" and "\<And>e. keeps (h e)"
  shows "keeps (try_catch m h)"
  unfolding keeps_def
proof
  fix w
  obtain r w1 where m: "m w = (r, w1)"
    by (cases "m w")
  with assms(1) have first: "marks_only w w1"
    by (metis keeps_def snd_conv)
  show "marks_only w (snd (try_catch m h w))"
  proof (cases r)
    case (Inr x)
    with m first show ?thesis
      by (simp add: try_catch_def)
  next
    case (Inl e)
    from assms(2) have "marks_only w1 (snd (h e w1))"
      by (simp add: keeps_def)
    with first have "marks_only w (snd (h e w1))"
      by (rule marks_only_trans)
    with m Inl show ?thesis
      by (simp add: try_catch_def)
  qed
qed

lemma keeps_perform: "put_marked ev \<Longrightarrow> keeps (perform ev r)"
  by (simp add: keeps_def perform_def marks_only_event)

lemma keeps_log: "keeps (log l t)"
  by (simp add: log_def keeps_perform)

lemma keeps_discord: "put_marked ev \<Longrightarrow> keeps (discord E ev)"
  by (simp add: discord_def keeps_perform)

lemma keeps_sns: "keeps (snsClient_send E c)"
  by (simp add: snsClient_send_def keeps_perform)

lemma keeps_ddb_get: "keeps (ddbDocClient_send E (GetCommand u))"
  by (simp add: keeps_def ddbDocClient_send_def marks_only_def Let_def split: option.splits)

lemma keeps_ddb_delete: "keeps (ddbDocClient_send E (DeleteCommand u))"
  by (simp add: keeps_def ddbDocClient_send_def marks_only_def Let_def split: option.splits)

lemma keeps_ddb_put: "keeps (ddbDocClient_send E (PutCommand u (pending_marker @ p)))"
  by (simp add: keeps_def ddbDocClient_send_def marks_only_def Let_def startsWith_append
      split: option.splits)

lemmas keeps_intros = keeps_ret keeps_throw keeps_await keeps_try_catch keeps_log keeps_discord
  keeps_sns keeps_ddb_get keeps_ddb_delete keeps_ddb_put keeps_perform

lemma keeps_handleInspire: "keeps (handleInspire E m)"
  unfolding handleInspire_def helper_defs
  by (auto intro!: keeps_intros split: option.split prod.split)

lemma keeps_handleSubscribe: "keeps (handleSubscribe E m)"
  unfolding handleSubscribe_def helper_defs Let_def
  by (auto intro!: keeps_intros)

lemma keeps_handleUnsubscribe: "keeps (handleUnsubscribe E m)"
  unfolding handleUnsubscribe_def helper_defs
  by (auto intro!: keeps_intros split: option.split)

lemma keeps_messageCreate: "keeps (messageCreate E m)"
  unfolding messageCreate_def Let_def
  by (auto intro!: keeps_intros keeps_handleInspire keeps_handleSubscribe keeps_handleUnsubscribe)

lemma marks_only_run: "marks_only w (run ms w)"
proof (induction ms arbitrary: w)
  case Nil
  show ?case by (simp add: marks_only_refl)
next
  case (Cons em ms)
  obtain E m where em: "em = (E, m)"
    by (cases em)
  have "marks_only w (snd (messageCreate E m w))"
    using keeps_messageCreate by (simp add: keeps_def)
  moreover have "marks_only (snd (messageCreate E m w)) (run ms (snd (messageCreate E m w)))"
    by (rule Cons.IH)
  ultimately show ?case
    by (simp add: em marks_only_trans)
qed

lemma marked_is_pending:
  assumes "startsWith v pending_marker"
  shows "phoneState (Some v) = Pending (drop (length pending_marker) v)"
proof -
  from assms have "v \<noteq> []"
    using pending_marker_nonempty by (auto simp: startsWith_def)
  with assms show ?thesis
    by (simp add: phoneState_def)
qed

text \<open>A subscription on top of a confirmed record: the record is overwritten with a marked one.\<close>

lemma subscribe_run_sample:
  "run [(all_well, subscribe_message)] confirmed_world =
     confirmed_world\<lparr>store := [alice \<mapsto> pending_marker @ js ''+15551234567''],
       trace := [CreateDM alice,
        DmChannelSend alice text_subscribe_prompt,
        AwaitMessages alice 1 60000,
        SnsSend (SubscribeCommand protocol_sms (TOPIC_ARN all_well) (js ''+15551234567'')),
        DmChannelSend alice text_subscribe_thanks,
        DdbSend (PutCommand alice (pending_marker @ js ''+15551234567''))]\<rparr>"
proof -
  have "\<not> startsWith (js ''!subscribe'') (js ''!inspire'')"
    and "startsWith (js ''!subscribe'') (js ''!subscribe'')"
    and "\<not> startsWith (js ''!subscribe'') (js ''!unsubscribe'')"
    by (simp_all add: startsWith_def js_def)
  then show ?thesis
    by (simp add: messageCreate_def subscribe_message_def handleSubscribe_def helper_defs io_defs
        Let_def all_well_def confirmed_world_def trim_sample)
qed

text \<open>
  C9. The handler run on any sequence of messages, whatever the collaborators answer: every
  put it sends carries a value in the pending state; a record that is confirmed afterwards
  is a record that was there before, unchanged; so a pending record never becomes a
  confirmed one.
\<close>

theorem only_pending_records_written:
  "(\<forall>ev \<in> set (emitted w (run ms w)). \<forall>u v. ev = DdbSend (PutCommand u v) \<longrightarrow>
      (\<exists>p. phoneState (Some v) = Pending p))
   \<and> (\<forall>u p. phoneState (store (run ms w) u) = Confirmed p \<longrightarrow> store (run ms w) u = store w u)
   \<and> (\<forall>u p q. phoneState (store w u) = Pending p \<longrightarrow> phoneState (store (run ms w) u) \<noteq> Confirmed q)"
proof -
  have run: "marks_only w (run ms w)"
    by (rule marks_only_run)
  then obtain evs where evs: "trace (run ms w) = trace w @ evs" "list_all put_marked evs"
    by (auto simp: marks_only_def)
  have kept: "store (run ms w) u = store w u" if "phoneState (store (run ms w) u) = Confirmed p" for u p
  proof -
    from run have "store (run ms w) u = store w u \<or> store (run ms w) u = None
        \<or> (\<exists>p. store (run ms w) u = Some (pending_marker @ p))"
      by (simp add: marks_only_def)
    moreover have "phoneState None = Unset"
      by (simp add: phoneState_def)
    ultimately show ?thesis
      using that by (auto simp: phoneState_marked)
  qed
  have "\<exists>p. phoneState (Some v) = Pending p"
    if "ev \<in> set (emitted w (run ms w))" "ev = DdbSend (PutCommand u v)" for ev u v
  proof -
    from that evs have "DdbSend (PutCommand u v) \<in> set evs"
      by (simp add: emitted_def)
    with evs(2) have "put_marked (DdbSend (PutCommand u v))"
      unfolding list_all_iff by blast
    then have "startsWith v pending_marker"
      by simp
    then show ?thesis
      by (simp add: marked_is_pending)
  qed
  moreover have "phoneState (store (run ms w) u) \<noteq> Confirmed q"
    if "phoneState (store w u) = Pending p" for u p q
    using kept [of u q] that by auto
  ultimately show ?thesis
    using kept by blast
qed

theorem only_pending_records_written_witness:
  "DdbSend (PutCommand alice (pending_marker @ js ''+15551234567''))
      \<in> set (emitted confirmed_world (run [(all_well, subscribe_message)] confirmed_world))
   \<and> (\<exists>p. phoneState (Some (pending_marker @ js ''+15551234567'')) = Pending p)
   \<and> phoneState (store confirmed_world alice) = Confirmed (js ''+15551234567'')
   \<and> phoneState (store (run [(all_well, subscribe_message)] confirmed_world) alice)
        = Pending (js ''+15551234567'')
   \<and> phoneState (store (run [(all_well, subscribe_message), (all_well, unsubscribe_message)] pending_world) alice)
        \<noteq> Confirmed (js ''+15551234567'')"
proof -
  note main = only_pending_records_written [of confirmed_world "[(all_well, subscribe_message)]"]
  have ev: "DdbSend (PutCommand alice (pending_marker @ js ''+15551234567''))
      \<in> set (emitted confirmed_world (run [(all_well, subscribe_message)] confirmed_world))"
    unfolding subscribe_run_sample by (simp add: emitted_def confirmed_world_def)
  with main have "\<exists>p. phoneState (Some (pending_marker @ js ''+15551234567'')) = Pending p"
    by blast
  moreover have "phoneState (store confirmed_world alice) = Confirmed (js ''+15551234567'')"
    by (simp add: confirmed_world_def confirmed_sample)
  moreover have "phoneState (store (run [(all_well, subscribe_message)] confirmed_world) alice)
        = Pending (js ''+15551234567'')"
    unfolding subscribe_run_sample by (simp add: phoneState_marked)
  moreover have "phoneState (store pending_world alice) = Pending (js ''+15551234567'')"
    by (simp add: pending_world_def pending_sample phoneState_marked)
  with only_pending_records_written
    [of pending_world "[(all_well, subscribe_message), (all_well, unsubscribe_message)]"]
  have "phoneState (store (run [(all_well, subscribe_message), (all_well, unsubscribe_message)] pending_world) alice)
        \<noteq> Confirmed (js ''+15551234567'')"
    by blast
  ultimately show ?thesis
    using ev by simp
qed

end
